theory Spec2Isabelle
  imports Complex_Main
begin

section \<open>Latent space models: binary Euclidean and binary hyperbolic\<close>

text \<open>
  The development follows \<^verbatim>\<open>helper_functions.py\<close>, \<^verbatim>\<open>binary_euclidean_LSM.py\<close> and
  \<^verbatim>\<open>binary_hyperbolic_LSM.py\<close>. A finite floating-point number is a real number.
  In the distance and link functions every arithmetic operation returns the rounded
  exact result, with the rounding of the float format a parameter, so that what the
  source does against rounding (its clamps and offsets) acts in the model as it does in
  the program. The densities of the statistics library and the exponential map are
  written with exact arithmetic. No operation overflows. Where the source itself produces
  or combines the special values of IEEE arithmetic (an infinite constant, a division
  whose divisor can be zero, a square root or logarithm whose argument can leave the
  domain), the value is kept in the type \<open>fl\<close>, whose operations follow the IEEE rules
  for infinities and NaN. Exceptions are values of type \<open>error\<close>, returned on the left
  of a sum.
\<close>

subsection \<open>Values\<close>

type_synonym vec = "real list"
type_synonym mat = "real list list"

datatype error = NameError | ValueError | TypeError | IndexError | AttributeError | ShapeError

datatype fl = Fin real | PInf | NInf | NaN

fun fneg :: "fl \<Rightarrow> fl" where
  "fneg (Fin x) = Fin (- x)"
| "fneg PInf = NInf"
| "fneg NInf = PInf"
| "fneg NaN = NaN"

fun fadd :: "fl \<Rightarrow> fl \<Rightarrow> fl" where
  "fadd (Fin x) (Fin y) = Fin (x + y)"
| "fadd NaN _ = NaN"
| "fadd _ NaN = NaN"
| "fadd PInf NInf = NaN"
| "fadd NInf PInf = NaN"
| "fadd PInf _ = PInf"
| "fadd _ PInf = PInf"
| "fadd NInf _ = NInf"
| "fadd _ NInf = NInf"

definition fsub :: "fl \<Rightarrow> fl \<Rightarrow> fl" where
  "fsub a b = fadd a (fneg b)"

definition signed_inf :: "bool \<Rightarrow> fl" where
  "signed_inf positive = (if positive then PInf else NInf)"

fun fmul :: "fl \<Rightarrow> fl \<Rightarrow> fl" where
  "fmul (Fin x) (Fin y) = Fin (x * y)"
| "fmul NaN _ = NaN"
| "fmul _ NaN = NaN"
| "fmul PInf (Fin y) = (if y = 0 then NaN else signed_inf (0 < y))"
| "fmul NInf (Fin y) = (if y = 0 then NaN else signed_inf (y < 0))"
| "fmul (Fin x) PInf = (if x = 0 then NaN else signed_inf (0 < x))"
| "fmul (Fin x) NInf = (if x = 0 then NaN else signed_inf (x < 0))"
| "fmul PInf PInf = PInf"
| "fmul PInf NInf = NInf"
| "fmul NInf PInf = NInf"
| "fmul NInf NInf = PInf"

fun fdiv :: "fl \<Rightarrow> fl \<Rightarrow> fl" where
  "fdiv (Fin x) (Fin y) =
     (if y = 0 then (if x = 0 then NaN else signed_inf (0 < x)) else Fin (x / y))"
| "fdiv NaN _ = NaN"
| "fdiv _ NaN = NaN"
| "fdiv (Fin x) _ = Fin 0"
| "fdiv PInf (Fin y) = signed_inf (0 \<le> y)"
| "fdiv NInf (Fin y) = signed_inf (y < 0)"
| "fdiv _ _ = NaN"

fun fsqrt :: "fl \<Rightarrow> fl" where
  "fsqrt (Fin x) = (if x < 0 then NaN else Fin (sqrt x))"
| "fsqrt PInf = PInf"
| "fsqrt _ = NaN"

fun flog :: "fl \<Rightarrow> fl" where
  "flog (Fin x) = (if x < 0 then NaN else if x = 0 then NInf else Fin (ln x))"
| "flog PInf = PInf"
| "flog _ = NaN"

fun fcosh :: "fl \<Rightarrow> fl" where
  "fcosh (Fin x) = Fin (cosh x)"
| "fcosh NaN = NaN"
| "fcosh _ = PInf"

fun fsinh :: "fl \<Rightarrow> fl" where
  "fsinh (Fin x) = Fin (sinh x)"
| "fsinh v = v"

text \<open>\<^verbatim>\<open>.sum()\<close> of an array of floats.\<close>

definition fsum :: "fl list \<Rightarrow> fl" where
  "fsum xs = foldl fadd (Fin 0) xs"

text \<open>
  The product of an infinite constant with the comparison of an element of a JAX array,
  as the compiled program evaluates it: the constant where the comparison holds, and 0.0
  where it does not (the multiplication by a converted predicate is a selection).
\<close>

definition inf_times_bool :: "fl \<Rightarrow> bool \<Rightarrow> fl" where
  "inf_times_bool c b = (if b then c else Fin 0)"

subsection \<open>Rounding\<close>

text \<open>
  The rounding of a float format maps a real number to the float that represents it. It
  is monotone, keeps 0 and 1, and maps a float to itself; binary floating point with
  rounding to nearest is such a function on the range where nothing overflows. A float
  is a fixed point of the rounding. Negation, maximum, minimum and the multiplication by
  1 or by -1 are exact and are written without rounding. \<open>exact\<close> is the rounding that
  changes nothing; it evaluates the model at inputs where every operation is exact.
\<close>

definition rounding :: "(real \<Rightarrow> real) \<Rightarrow> bool" where
  "rounding rnd = (mono rnd \<and> rnd 0 = 0 \<and> rnd 1 = 1 \<and> (\<forall>x. rnd (rnd x) = rnd x))"

definition exact :: "real \<Rightarrow> real" where
  "exact x = x"

definition round_fl :: "(real \<Rightarrow> real) \<Rightarrow> fl \<Rightarrow> fl" where
  "round_fl rnd v = (case v of Fin x \<Rightarrow> Fin (rnd x) | _ \<Rightarrow> v)"

subsection \<open>Array primitives of the numerical library\<close>

text \<open>\<^verbatim>\<open>jnp.clip(x, a_min, a_max)\<close> is \<^verbatim>\<open>minimum(a_max, maximum(x, a_min))\<close>.\<close>

definition jnp_clip :: "real \<Rightarrow> real \<Rightarrow> real \<Rightarrow> real" where
  "jnp_clip x a_min a_max = min a_max (max x a_min)"

text \<open>
  Elementwise combination of two one-dimensional arrays under the broadcasting rule:
  equal lengths pair up position by position, an array of length one is repeated, any
  other pair of lengths is rejected.
\<close>

definition bcast2 :: "('a \<Rightarrow> 'b \<Rightarrow> 'c) \<Rightarrow> 'a list \<Rightarrow> 'b list \<Rightarrow> error + 'c list" where
  "bcast2 f xs ys =
     (if length xs = length ys then Inr (map2 f xs ys)
      else if length ys = 1 then Inr (map (\<lambda>x. f x (hd ys)) xs)
      else if length xs = 1 then Inr (map (\<lambda>y. f (hd xs) y) ys)
      else Inl ShapeError)"

fun collect :: "(error + 'a) list \<Rightarrow> error + 'a list" where
  "collect [] = Inr []"
| "collect (Inl e # _) = Inl e"
| "collect (Inr x # rs) = (case collect rs of Inl e \<Rightarrow> Inl e | Inr xs \<Rightarrow> Inr (x # xs))"

text \<open>
  Reading position \<open>i\<close> of a JAX array with a static index: an index past the end is
  clamped to the last position; an axis of length zero has no position to read.
\<close>

definition jax_index :: "'a list \<Rightarrow> nat \<Rightarrow> error + 'a" where
  "jax_index xs i = (if xs = [] then Inl IndexError else Inr (xs ! min i (length xs - 1)))"

text \<open>\<^verbatim>\<open>m[jnp.triu_indices(N, k=1)]\<close>: the entries above the diagonal, row by row.\<close>

definition triu :: "nat \<Rightarrow> mat \<Rightarrow> vec" where
  "triu N m = concat (map (\<lambda>i. map (\<lambda>j. m ! i ! j) [i + 1..<N]) [0..<N])"

subsection \<open>Geometry (\<^verbatim>\<open>helper_functions.py\<close>)\<close>

text \<open>
  The inner product of two rows in floating point: the products are rounded and added up
  one after the other, each sum rounded. (The properties proved below do not depend on
  the order of the accumulation.) \<^verbatim>\<open>G = jnp.dot(z, z.T)\<close> and \<^verbatim>\<open>g = jnp.diag(G)\<close>.
\<close>

definition fdot :: "(real \<Rightarrow> real) \<Rightarrow> vec \<Rightarrow> vec \<Rightarrow> real" where
  "fdot rnd a b = foldl (\<lambda>acc p. rnd (acc + rnd p)) 0 (map2 (*) a b)"

definition gram :: "(real \<Rightarrow> real) \<Rightarrow> mat \<Rightarrow> mat" where
  "gram rnd z = map (\<lambda>a. map (\<lambda>b. fdot rnd a b) z) z"

definition diag :: "mat \<Rightarrow> vec" where
  "diag G = map (\<lambda>i. G ! i ! i) [0..<length G]"

text \<open>
  \<^verbatim>\<open>inside = jnp.maximum(jnp.outer(ones, g) + jnp.outer(g, ones) - 2 * G, 0)\<close>,
  \<^verbatim>\<open>return jnp.sqrt(inside)\<close>. Entry \<open>(i, j)\<close> of the first outer product is
  \<open>1 * g[j]\<close>, of the second \<open>g[i] * 1\<close>.
\<close>

definition euclidean_distance :: "(real \<Rightarrow> real) \<Rightarrow> mat \<Rightarrow> mat" where
  "euclidean_distance rnd z =
     (let G = gram rnd z; g = diag G; n = length g
      in map (\<lambda>i. map (\<lambda>j.
                rnd (sqrt (max (rnd (rnd (1 * g ! j + g ! i * 1) - rnd (2 * G ! i ! j))) 0)))
              [0..<n])
           [0..<n])"

text \<open>\<^verbatim>\<open>signs = jnp.ones_like(v); signs = signs.at[:,0].set(-1)\<close>, one row of it.\<close>

definition signs_row :: "vec \<Rightarrow> vec" where
  "signs_row v = (case v of [] \<Rightarrow> [] | x # xs \<Rightarrow> (- 1) # map (\<lambda>_. 1) xs)"

text \<open>\<^verbatim>\<open>lorentzian(v, u) = jnp.sum(v*u*signs, axis=1)\<close>, for one row and for all rows.\<close>

definition lorentzian_row :: "vec \<Rightarrow> vec \<Rightarrow> real" where
  "lorentzian_row v u = sum_list (map2 (*) (map2 (*) v u) (signs_row v))"

definition lorentzian :: "mat \<Rightarrow> mat \<Rightarrow> vec" where
  "lorentzian v u = map2 lorentzian_row v u"

text \<open>
  The local \<^verbatim>\<open>arccosh\<close> of \<^verbatim>\<open>lorentz_distance\<close>:
  \<^verbatim>\<open>x_clip = jnp.maximum(x, jnp.ones_like(x, dtype=jnp.float32))\<close>,
  \<^verbatim>\<open>return jnp.log(x_clip + jnp.sqrt(x_clip**2 - 1))\<close>.
\<close>

definition arccosh :: "(real \<Rightarrow> real) \<Rightarrow> real \<Rightarrow> real" where
  "arccosh rnd x =
     (let x_clip = max x 1
      in rnd (ln (rnd (x_clip + rnd (sqrt (rnd (rnd (x_clip * x_clip) - 1)))))))"

text \<open>
  \<^verbatim>\<open>lor = jnp.dot(signs*z, z.T); dist = arccosh(-lor)\<close>, then the diagonal is set to 0.
\<close>

definition lorentz_distance :: "(real \<Rightarrow> real) \<Rightarrow> mat \<Rightarrow> mat" where
  "lorentz_distance rnd z =
     (let sz = map (\<lambda>r. map2 (*) (signs_row r) r) z;
          lor = map (\<lambda>a. map (\<lambda>b. fdot rnd a b) z) sz;
          n = length lor
      in map (\<lambda>i. map (\<lambda>j. if i = j then 0 else arccosh rnd (- (lor ! i ! j))) [0..<n])
           [0..<n])"

text \<open>
  \<^verbatim>\<open>exponential_map(mu, u, eps)\<close>, row by row:
  \<^verbatim>\<open>lor = lorentzian(u,u,keepdims=True)\<close>,
  \<^verbatim>\<open>u_norm = jnp.sqrt(jnp.clip(lor, eps, lor))\<close>,
  \<^verbatim>\<open>return jnp.cosh(u_norm) * mu + jnp.sinh(u_norm) * u / u_norm\<close>.
  The two arguments have the same shape, as at the call in \<^verbatim>\<open>get_det_params\<close>.
\<close>

definition u_norm :: "vec \<Rightarrow> real \<Rightarrow> fl" where
  "u_norm u eps = (let lor = lorentzian_row u u in fsqrt (Fin (jnp_clip lor eps lor)))"

definition exponential_map_row :: "vec \<Rightarrow> vec \<Rightarrow> real \<Rightarrow> fl list" where
  "exponential_map_row mu u eps =
     (let n = u_norm u eps
      in map2 (\<lambda>m x. fadd (fmul (fcosh n) (Fin m)) (fdiv (fmul (fsinh n) (Fin x)) n)) mu u)"

definition exponential_map :: "mat \<Rightarrow> mat \<Rightarrow> real \<Rightarrow> fl list list" where
  "exponential_map mu u eps = map2 (\<lambda>m x. exponential_map_row m x eps) mu u"

text \<open>
  Well-formed inputs of the distance functions: an array is rectangular, and a point of
  the hyperbolic model lies on the upper sheet of the hyperboloid.
\<close>

definition rect :: "mat \<Rightarrow> nat \<Rightarrow> bool" where
  "rect z D = list_all (\<lambda>r. length r = D) z"

definition on_hyperboloid :: "vec \<Rightarrow> bool" where
  "on_hyperboloid r = (case r of [] \<Rightarrow> False | x # xs \<Rightarrow> 0 < x \<and> lorentzian_row r r = - 1)"

subsection \<open>Densities of the statistics library\<close>

text \<open>
  \<^verbatim>\<open>jstats.norm.logpdf(x, loc, scale)\<close> computes
  \<open>(log(2 * pi * scale\<^sup>2) + (x - loc)\<^sup>2 / scale\<^sup>2) / (-2)\<close>.
  \<^verbatim>\<open>jstats.truncnorm.logpdf(x, a, b=inf, loc, scale)\<close> subtracts the log of the Gaussian
  mass of the interval (one half for \<open>a = 0\<close>) and returns minus infinity where
  \<open>(x - loc) / scale < a\<close>.
  \<^verbatim>\<open>jstats.bernoulli.logpmf(k, p)\<close> is \<open>xlogy(k, p) + xlog1py(1 - k, -p)\<close>, and minus
  infinity for \<open>k\<close> outside \<open>[0, 1]\<close>; \<open>xlogy(0, y)\<close> is 0 for every \<open>y\<close>.
\<close>

definition norm_logpdf :: "real \<Rightarrow> real \<Rightarrow> real \<Rightarrow> fl" where
  "norm_logpdf x loc scale =
     fdiv (fadd (flog (Fin (2 * pi * scale\<^sup>2))) (fdiv (Fin ((x - loc)\<^sup>2)) (Fin (scale\<^sup>2))))
          (Fin (- 2))"

definition truncnorm_logpdf_lower :: "real \<Rightarrow> real \<Rightarrow> real \<Rightarrow> real \<Rightarrow> fl" where
  "truncnorm_logpdf_lower x a loc scale =
     (case fdiv (Fin (x - loc)) (Fin scale) of
        NaN \<Rightarrow> NaN
      | NInf \<Rightarrow> NInf
      | PInf \<Rightarrow> fsub (norm_logpdf x loc scale) (Fin (ln (1 / 2)))
      | Fin x_scaled \<Rightarrow>
          if x_scaled < a then NInf else fsub (norm_logpdf x loc scale) (Fin (ln (1 / 2))))"

definition xlogy :: "real \<Rightarrow> fl \<Rightarrow> fl" where
  "xlogy x y = (if x = 0 then Fin 0 else fmul (Fin x) (flog y))"

definition bernoulli_logpmf :: "real \<Rightarrow> fl \<Rightarrow> fl" where
  "bernoulli_logpmf k p =
     (if k < 0 \<or> 1 < k then NInf
      else fadd (xlogy k p) (xlogy (1 - k) (fadd (Fin 1) (fneg p))))"

subsection \<open>The binary Euclidean model (\<^verbatim>\<open>binary_euclidean_LSM.py\<close>)\<close>

text \<open>
  \<^verbatim>\<open>get_det_params(z, eps)\<close>: \<^verbatim>\<open>d = euclidean_distance(z)[triu_indices]\<close>,
  \<^verbatim>\<open>d_norm = d/(jnp.max(d)+eps)\<close>, \<^verbatim>\<open>p = 1-d_norm\<close>. The maximum of an empty array
  raises. The Python float \<open>eps\<close> is converted to the float format of the array before
  it is added.
\<close>

definition d_norm_of :: "(real \<Rightarrow> real) \<Rightarrow> vec \<Rightarrow> real \<Rightarrow> error + fl list" where
  "d_norm_of rnd d eps =
     (if d = [] then Inl ValueError
      else Inr (map (\<lambda>x. round_fl rnd (fdiv (Fin x) (Fin (rnd (Max (set d) + rnd eps))))) d))"

definition p_of :: "(real \<Rightarrow> real) \<Rightarrow> fl list \<Rightarrow> fl list" where
  "p_of rnd d_norm = map (\<lambda>q. round_fl rnd (fsub (Fin 1) q)) d_norm"

record det_params =
  params_z :: mat
  params_d :: vec
  params_d_norm :: "fl list"
  params_p :: "fl list"

definition get_det_params :: "(real \<Rightarrow> real) \<Rightarrow> mat \<Rightarrow> real \<Rightarrow> error + det_params" where
  "get_det_params rnd z eps =
     (let N = length z;
          d = triu N (euclidean_distance rnd z)
      in case d_norm_of rnd d eps of
           Inl e \<Rightarrow> Inl e
         | Inr d_norm \<Rightarrow>
             Inr \<lparr>params_z = z, params_d = d, params_d_norm = d_norm,
                  params_p = p_of rnd d_norm\<rparr>)"

text \<open>\<^verbatim>\<open>log_prior(z, mu, sigma) = jstats.norm.logpdf(z, loc=mu, scale=sigma).sum()\<close>.\<close>

definition log_prior :: "mat \<Rightarrow> vec \<Rightarrow> real \<Rightarrow> error + fl" where
  "log_prior z mu sigma =
     (case collect (map (\<lambda>row. bcast2 (\<lambda>x loc. norm_logpdf x loc sigma) row mu) z) of
        Inl e \<Rightarrow> Inl e
      | Inr rows \<Rightarrow> Inr (fsum (concat rows)))"

text \<open>
  \<^verbatim>\<open>rest_logprior = log_prior(z[1:,:], mu, sigma)\<close>,
  \<^verbatim>\<open>pivot_point_logprior = jnp.log(2)+jstats.norm.logpdf(z[0,:], loc=mu, scale=sigma).sum()
     + np.NINF*(z[0,1] < 0.)\<close>,
  \<^verbatim>\<open>return rest_logprior + pivot_point_logprior\<close>.
  The source comments the second line with
  \<^verbatim>\<open>log[2*N(_z[2]|mu,sigma)] if _z[2] >= 0 else -INF\<close>.
\<close>

definition bookstein_log_prior :: "mat \<Rightarrow> vec \<Rightarrow> real \<Rightarrow> error + fl" where
  "bookstein_log_prior z mu sigma =
     (case log_prior (drop 1 z) mu sigma of
        Inl e \<Rightarrow> Inl e
      | Inr rest_logprior \<Rightarrow>
          (case jax_index z 0 of
             Inl e \<Rightarrow> Inl e
           | Inr z0 \<Rightarrow>
               (case bcast2 (\<lambda>x loc. norm_logpdf x loc sigma) z0 mu of
                  Inl e \<Rightarrow> Inl e
                | Inr terms \<Rightarrow>
                    (case jax_index z0 1 of
                       Inl e \<Rightarrow> Inl e
                     | Inr z01 \<Rightarrow>
                         Inr (fadd rest_logprior
                                (fadd (fadd (Fin (ln 2)) (fsum terms))
                                      (inf_times_bool NInf (z01 < 0))))))))"

text \<open>
  The names bound at module level of \<^verbatim>\<open>binary_euclidean_LSM.py\<close> (imports, constants,
  functions, and the variables of the main block), each with what a call
  \<^verbatim>\<open>name(z, eps=eps)\<close> would reach: the function \<^verbatim>\<open>get_det_params\<close>, or an object
  that does not accept that call.
\<close>

datatype binding = DetParamsFunction | OtherObject

definition module_globals :: "(string \<times> binding) list" where
  "module_globals =
     [(''get_det_params'', DetParamsFunction)] @
     map (\<lambda>name. (name, OtherObject))
       [''set_GPU'', ''get_cmd_params'', ''get_filename_with_ext'', ''get_safe_folder'',
        ''load_observations'', ''get_attribute_from_trace'', ''euclidean_distance'',
        ''get_bookstein_anchors'', ''bookstein_position'', ''smc_bookstein_position'',
        ''add_bkst_to_smc_trace'', ''plot_posterior'', ''plot_network'',
        ''pickle'', ''time'', ''os'', ''csv'', ''np'', ''plt'', ''jax'', ''jnp'', ''jstats'',
        ''bjx'', ''resampling'', ''PRNGKeyArray'', ''ArrayLike'', ''PyTree'', ''RMHState'',
        ''TemperedSMCState'', ''SMCInfo'', ''Callable'', ''Tuple'',
        ''eps'', ''obs_eps'', ''mu'', ''sigma'', ''N'', ''D'', ''s1'', ''sn'', ''n_particles'',
        ''n_mcmc_steps'', ''rmh_sigma'', ''bookstein_dist'', ''base_data_filename'',
        ''task_filename'', ''base_output_folder'', ''make_plot'', ''figure_folder'',
        ''label_location'', ''plot_threshold'', ''do_print'', ''save_stats'',
        ''stats_filename'', ''stats_folder'', ''dl'', ''seed_file'', ''seed'', ''gpu'',
        ''arguments'', ''global_params'', ''M'', ''subject1'', ''subjectn'',
        ''overwrite_data_filename'', ''output_folder'', ''partial'', ''bpf'', ''key'',
        ''sample_prior'', ''sample_observation'', ''log_prior'', ''bookstein_log_prior'',
        ''log_likelihood'', ''bookstein_log_likelihood'', ''log_density'',
        ''initialize_particles'', ''initialize_bkst_particles'', ''smc_bkst_inference_loop'',
        ''get_LSM_embedding'', ''label_data'', ''plt_labels'', ''data_filename'', ''obs'',
        ''tasks'', ''encs'', ''si'', ''n_sub'', ''ti'', ''task'', ''start_time'', ''end_time'',
        ''n_iter'', ''lml'', ''smc_embedding'', ''stats_row'', ''f'', ''writer'',
        ''partial_txt'', ''base_save_filename'', ''z_positions'', ''ax'', ''poincare_disk'',
        ''savefile'', ''embedding_filename'', ''info_filename'', ''info_string'']"

text \<open>
  \<^verbatim>\<open>log_likelihood(z, obs, eps)\<close>: \<^verbatim>\<open>params = get_all_params(z, eps=eps)\<close>,
  \<^verbatim>\<open>p = params['p']\<close>, \<^verbatim>\<open>return jstats.bernoulli.logpmf(obs, p).sum()\<close>. The name
  \<^verbatim>\<open>get_all_params\<close> is looked up in the module's globals when the function runs.
\<close>

definition log_likelihood :: "(real \<Rightarrow> real) \<Rightarrow> mat \<Rightarrow> mat \<Rightarrow> real \<Rightarrow> error + fl" where
  "log_likelihood rnd z obs eps =
     (case map_of module_globals ''get_all_params'' of
        None \<Rightarrow> Inl NameError
      | Some OtherObject \<Rightarrow> Inl TypeError
      | Some DetParamsFunction \<Rightarrow>
          (case get_det_params rnd z eps of
             Inl e \<Rightarrow> Inl e
           | Inr params \<Rightarrow>
               (case collect (map (\<lambda>row. bcast2 bernoulli_logpmf row (params_p params)) obs) of
                  Inl e \<Rightarrow> Inl e
                | Inr rows \<Rightarrow> Inr (fsum (concat rows)))))"

subsection \<open>The binary hyperbolic model (\<^verbatim>\<open>binary_hyperbolic_LSM.py\<close>)\<close>

text \<open>
  Functions of this module whose names the Euclidean module also uses carry the prefix
  \<open>hyp\<close>; the arguments \<^verbatim>\<open>_z\<close> and \<^verbatim>\<open>_zb_x\<close> are written \<open>pre_z\<close> and \<open>pre_zb_x\<close>.
  \<^verbatim>\<open>d_to_p(d, eps) = jnp.clip(jnp.exp(-d**2), eps, 1-eps)\<close>, elementwise on \<open>d\<close>.
  The square and the exponential are rounded in the float format of the array
  (\<open>rnd\<close>); \<open>1-eps\<close> is Python float arithmetic (\<open>rnd_py\<close>); both bounds are converted
  to the float format of the array.
\<close>

definition d_to_p :: "(real \<Rightarrow> real) \<Rightarrow> (real \<Rightarrow> real) \<Rightarrow> vec \<Rightarrow> real \<Rightarrow> vec" where
  "d_to_p rnd rnd_py d eps =
     map (\<lambda>x. jnp_clip (rnd (exp (- rnd (x * x)))) (rnd eps) (rnd (rnd_py (1 - eps)))) d"

definition hyp_log_prior :: "mat \<Rightarrow> real \<Rightarrow> fl" where
  "hyp_log_prior pre_z sigma = fsum (concat (map (map (\<lambda>x. norm_logpdf x 0 sigma)) pre_z))"

text \<open>
  \<^verbatim>\<open>_zb_x_logprior = jstats.truncnorm.logpdf(_zb_x, a=0, b=jnp.inf, loc=-bookstein_dist,
     scale=sigma).sum()\<close>,
  \<^verbatim>\<open>_zb_y_logprior = jnp.log(2)+jstats.norm.logpdf(_z[0,:], loc=0, scale=sigma).sum()
     - jnp.inf*(_z[0,1] < 0)\<close>,
  \<^verbatim>\<open>rest_logprior = log_prior(_z[1:,:], sigma)\<close>,
  \<^verbatim>\<open>return rest_logprior + _zb_x_logprior + _zb_y_logprior\<close>.
  The module constant \<^verbatim>\<open>bookstein_dist\<close> is a parameter.
\<close>

definition hyp_bookstein_log_prior :: "real \<Rightarrow> mat \<Rightarrow> vec \<Rightarrow> real \<Rightarrow> error + fl" where
  "hyp_bookstein_log_prior bookstein_dist pre_z pre_zb_x sigma =
     (let zb_x_logprior =
            fsum (map (\<lambda>x. truncnorm_logpdf_lower x 0 (- bookstein_dist) sigma) pre_zb_x)
      in case jax_index pre_z 0 of
           Inl e \<Rightarrow> Inl e
         | Inr z0 \<Rightarrow>
             (case jax_index z0 1 of
                Inl e \<Rightarrow> Inl e
              | Inr z01 \<Rightarrow>
                  (let zb_y_logprior =
                         fsub (fadd (Fin (ln 2)) (fsum (map (\<lambda>x. norm_logpdf x 0 sigma) z0)))
                              (inf_times_bool PInf (z01 < 0));
                       rest_logprior = hyp_log_prior (drop 1 pre_z) sigma
                   in Inr (fadd (fadd rest_logprior zb_x_logprior) zb_y_logprior))))"

text \<open>
  \<^verbatim>\<open>log_likelihood_from_dist(d, obs, eps)\<close>: \<^verbatim>\<open>p = d_to_p(d, eps=eps)\<close>,
  \<^verbatim>\<open>return jstats.bernoulli.logpmf(obs, p).sum()\<close>.
\<close>

definition log_likelihood_from_dist ::
  "(real \<Rightarrow> real) \<Rightarrow> (real \<Rightarrow> real) \<Rightarrow> vec \<Rightarrow> mat \<Rightarrow> real \<Rightarrow> error + fl" where
  "log_likelihood_from_dist rnd rnd_py d obs eps =
     (let p = map Fin (d_to_p rnd rnd_py d eps)
      in case collect (map (\<lambda>row. bcast2 bernoulli_logpmf row p) obs) of
           Inl e \<Rightarrow> Inl e
         | Inr rows \<Rightarrow> Inr (fsum (concat rows)))"

subsection \<open>Particles and the tempered SMC state\<close>

text \<open>
  A random key is a pair of words. An array with more than two axes is kept as its shape
  and its flat data. A particle set (a position) is a dictionary from names to arrays
  whose first axis runs over the particles. The state has the fields of the sampling
  library's \<^verbatim>\<open>TemperedSMCState\<close>. A Python tuple of mixed values is a list of \<open>pyval\<close>.
\<close>

type_synonym prng_key = "nat \<times> nat"

record ndarray =
  arr_shape :: "int list"
  arr_data :: "real list"

type_synonym position = "(string \<times> ndarray) list"

record tempered_smc_state =
  particles :: position
  weights :: "real list"
  lmbda :: real

datatype pyval = PInt int | PFloat real | PState tempered_smc_state | PKey prng_key

text \<open>
  What the modules take from outside: the random number library (splitting a key in two
  or three, normal and truncated normal draws), the step function that
  \<^verbatim>\<open>bjx.adaptive_tempered_smc\<close> builds from the proposal covariance, the number of
  MCMC steps and the observations (it returns the new state and the increment of the log
  marginal likelihood, or raises), and the functions of \<^verbatim>\<open>bookstein_methods\<close>.
\<close>

record externals =
  split2 :: "prng_key \<Rightarrow> prng_key \<times> prng_key"
  split3 :: "prng_key \<Rightarrow> prng_key \<times> prng_key \<times> prng_key"
  normal_draws :: "prng_key \<Rightarrow> nat \<Rightarrow> real list"
  truncated_normal_draws :: "prng_key \<Rightarrow> real \<Rightarrow> nat \<Rightarrow> real list"
  bookstein_data :: "int list \<Rightarrow> real list \<Rightarrow> real list"
  add_bkst_to_smc_trace ::
    "tempered_smc_state \<Rightarrow> real \<Rightarrow> int \<Rightarrow> error + tempered_smc_state"
  smc_step ::
    "mat \<Rightarrow> int \<Rightarrow> mat \<Rightarrow> prng_key \<Rightarrow> tempered_smc_state \<Rightarrow> error + tempered_smc_state \<times> real"

text \<open>
  Drawing an array of a given shape (a negative dimension is rejected), multiplying an
  array by a scalar, and adding a vector along the last axis under the broadcasting rule.
\<close>

definition random_array :: "(nat \<Rightarrow> real list) \<Rightarrow> int list \<Rightarrow> error + ndarray" where
  "random_array draws shp =
     (if list_ex (\<lambda>n. n < 0) shp then Inl ShapeError
      else Inr \<lparr>arr_shape = shp, arr_data = draws (nat (prod_list shp))\<rparr>)"

definition scale_array :: "real \<Rightarrow> ndarray \<Rightarrow> ndarray" where
  "scale_array c a = a\<lparr>arr_data := map (\<lambda>x. c * x) (arr_data a)\<rparr>"

definition add_last_axis :: "ndarray \<Rightarrow> vec \<Rightarrow> error + ndarray" where
  "add_last_axis a v =
     (let m = length v; D = (if arr_shape a = [] then 1 else last (arr_shape a)) in
      if int m = D then
        Inr (a\<lparr>arr_data := map (\<lambda>(k, x). x + v ! (k mod m)) (enumerate 0 (arr_data a))\<rparr>)
      else if m = 1 then
        Inr (a\<lparr>arr_data := map (\<lambda>x. x + hd v) (arr_data a)\<rparr>)
      else if D = 1 then
        Inr \<lparr>arr_shape = butlast (arr_shape a) @ [int m],
             arr_data = concat (map (\<lambda>x. map (\<lambda>c. x + c) v) (arr_data a))\<rparr>
      else Inl ShapeError)"

text \<open>
  Modelled from the spec: \<^verbatim>\<open>smc_bookstein_position\<close> of \<^verbatim>\<open>bookstein_methods\<close>, which is
  not among the sources. The spec fixes the number of free points of a particle at
  \<open>N - D\<close>, so the function keeps the shape of the sampled array; what it does to the
  coordinates is the parameter \<open>bookstein_data\<close>.
\<close>

definition smc_bookstein_position :: "externals \<Rightarrow> ndarray \<Rightarrow> ndarray" where
  "smc_bookstein_position ext a =
     a\<lparr>arr_data := bookstein_data ext (arr_shape a) (arr_data a)\<rparr>"

text \<open>
  \<^verbatim>\<open>initialize_bkst_particles\<close> of the Euclidean module:
  \<^verbatim>\<open>N, D = shape\<close>, \<^verbatim>\<open>z_key, key = jax.random.split(key, 2)\<close>,
  \<^verbatim>\<open>initial_position = {'z': smc_bookstein_position(sigma * jax.random.normal(z_key,
     shape=(num_particles, N - D, D)) + mu)}\<close>, \<^verbatim>\<open>return key, initial_position\<close>.
\<close>

definition initialize_bkst_particles ::
  "externals \<Rightarrow> prng_key \<Rightarrow> int \<Rightarrow> int \<times> int \<Rightarrow> vec \<Rightarrow> real \<Rightarrow> error + prng_key \<times> position"
where
  "initialize_bkst_particles ext key num_particles shp mu sigma =
     (let N = fst shp; D = snd shp;
          z_key = fst (split2 ext key); key' = snd (split2 ext key)
      in case random_array (normal_draws ext z_key) [num_particles, N - D, D] of
           Inl e \<Rightarrow> Inl e
         | Inr a \<Rightarrow>
             (case add_last_axis (scale_array sigma a) mu of
                Inl e \<Rightarrow> Inl e
              | Inr b \<Rightarrow> Inr (key', [(''z'', smc_bookstein_position ext b)])))"

text \<open>
  \<^verbatim>\<open>initialize_bkst_particles\<close> of the hyperbolic module:
  \<^verbatim>\<open>key, _z_key, _z_bx_key = jax.random.split(key, 3)\<close>,
  \<^verbatim>\<open>initial_position = {'_z': smc_bookstein_position(sigma*jax.random.normal(_z_key,
     shape=(num_particles, N-D, D))), '_zb_x': sigma*jax.random.truncated_normal(_z_bx_key,
     lower=-bookstein_dist, upper=jnp.inf, shape=(num_particles,1))}\<close>.
\<close>

definition hyp_initialize_bkst_particles ::
  "externals \<Rightarrow> prng_key \<Rightarrow> int \<Rightarrow> int \<times> int \<Rightarrow> real \<Rightarrow> real \<Rightarrow> error + prng_key \<times> position"
where
  "hyp_initialize_bkst_particles ext key num_particles shp sigma bookstein_dist =
     (let N = fst shp; D = snd shp;
          key' = fst (split3 ext key);
          z_key = fst (snd (split3 ext key));
          z_bx_key = snd (snd (split3 ext key))
      in case random_array (normal_draws ext z_key) [num_particles, N - D, D] of
           Inl e \<Rightarrow> Inl e
         | Inr a \<Rightarrow>
             (case random_array (truncated_normal_draws ext z_bx_key (- bookstein_dist))
                     [num_particles, 1] of
                Inl e \<Rightarrow> Inl e
              | Inr b \<Rightarrow>
                  Inr (key', [(''_z'', smc_bookstein_position ext (scale_array sigma a)),
                              (''_zb_x'', scale_array sigma b)])))"

text \<open>
  The number of scalar variables of one particle: the sizes of the entries of the
  dictionary without their first (particle) axis, added up. This is the length of the
  vector the random-walk proposal is drawn for.
\<close>

definition ravel_size :: "position \<Rightarrow> int" where
  "ravel_size pos = sum_list (map (\<lambda>entry. prod_list (tl (arr_shape (snd entry)))) pos)"

text \<open>
  \<^verbatim>\<open>jnp.eye(n)\<close> (a negative size raises) and the proposal covariance of the two
  drivers: \<^verbatim>\<open>rmh_parameters = {'sigma': rmh_sigma * jnp.eye((N - D) * D + 1)}\<close> in the
  Euclidean module; \<^verbatim>\<open>n_vars = (N - D) * D + 1\<close>, commented
  \<^verbatim>\<open>+1 for the x-coordinate of the 2nd bookstein anchor\<close>, and
  \<^verbatim>\<open>rmh_parameters = {'sigma': rmh_sigma * jnp.eye(n_vars)}\<close> in the hyperbolic one.
\<close>

definition jnp_eye :: "int \<Rightarrow> error + mat" where
  "jnp_eye n =
     (if n < 0 then Inl ValueError
      else Inr (map (\<lambda>i. map (\<lambda>j. if i = j then 1 else 0) [0..<nat n]) [0..<nat n]))"

definition scale_matrix :: "real \<Rightarrow> mat \<Rightarrow> mat" where
  "scale_matrix c m = map (map (\<lambda>x. c * x)) m"

definition rmh_parameters :: "int \<Rightarrow> int \<Rightarrow> real \<Rightarrow> error + mat" where
  "rmh_parameters N D rmh_sigma =
     (case jnp_eye ((N - D) * D + 1) of
        Inl e \<Rightarrow> Inl e
      | Inr eye \<Rightarrow> Inr (scale_matrix rmh_sigma eye))"

definition hyp_rmh_parameters :: "int \<Rightarrow> int \<Rightarrow> real \<Rightarrow> error + mat" where
  "hyp_rmh_parameters N D rmh_sigma =
     (let n_vars = (N - D) * D + 1
      in case jnp_eye n_vars of
           Inl e \<Rightarrow> Inl e
         | Inr eye \<Rightarrow> Inr (scale_matrix rmh_sigma eye))"

text \<open>
  \<^verbatim>\<open>smc.init\<close> of the sampling library: uniform weights and tempering parameter 0.
\<close>

definition tempered_init :: "position \<Rightarrow> tempered_smc_state" where
  "tempered_init pos =
     (let num_particles =
            (case pos of [] \<Rightarrow> 0
             | entry # _ \<Rightarrow> (case arr_shape (snd entry) of [] \<Rightarrow> 0 | n # _ \<Rightarrow> n))
      in \<lparr>particles = pos,
          weights = replicate (nat num_particles) (1 / real_of_int num_particles),
          lmbda = 0\<rparr>)"

subsection \<open>The inference loop and the driver of the Euclidean module\<close>

text \<open>
  \<^verbatim>\<open>jax.lax.while_loop(cond_fun, body_fun, init_val)\<close> with the semantics its
  documentation gives: \<^verbatim>\<open>val = init_val; while cond_fun(val): val = body_fun(val);
  return val\<close>. A loop that runs forever has the value \<open>None\<close>. (The library also
  traces the body once before the first test; an exception of the body at the initial
  value is then raised even earlier than here.)
\<close>

partial_function (option) while_loop ::
  "('a \<Rightarrow> error + bool) \<Rightarrow> ('a \<Rightarrow> error + 'a) \<Rightarrow> 'a \<Rightarrow> (error + 'a) option"
where
  "while_loop cond_fun body_fun val =
     (case cond_fun val of
        Inl e \<Rightarrow> Some (Inl e)
      | Inr continue \<Rightarrow>
          if continue
          then (case body_fun val of
                  Inl e \<Rightarrow> Some (Inl e)
                | Inr val' \<Rightarrow> while_loop cond_fun body_fun val')
          else Some (Inr val))"

text \<open>Unpacking a tuple into five or four names raises unless the length matches.\<close>

definition unpack5 :: "'a list \<Rightarrow> error + 'a \<times> 'a \<times> 'a \<times> 'a \<times> 'a" where
  "unpack5 t = (case t of [a, b, c, d, e] \<Rightarrow> Inr (a, b, c, d, e) | _ \<Rightarrow> Inl ValueError)"

definition unpack4 :: "'a list \<Rightarrow> error + 'a \<times> 'a \<times> 'a \<times> 'a" where
  "unpack4 t = (case t of [a, b, c, d] \<Rightarrow> Inr (a, b, c, d) | _ \<Rightarrow> Inl ValueError)"

text \<open>
  \<^verbatim>\<open>def cond(carry): state = carry[2]; return state.lmbda < 1\<close>.
\<close>

definition cond :: "pyval list \<Rightarrow> error + bool" where
  "cond carry =
     (if length carry \<le> 2 then Inl IndexError
      else case carry ! 2 of
             PState state \<Rightarrow> Inr (lmbda state < 1)
           | _ \<Rightarrow> Inl AttributeError)"

text \<open>
  \<^verbatim>\<open>def step(carry): i, lml, s_values, state, key = carry;
  key, subkey = jax.random.split(key); state, info = smc_kernel(subkey, state);
  lml += info.log_likelihood_increment; return i+1, lml, state, key\<close>.
\<close>

definition step ::
  "(prng_key \<Rightarrow> tempered_smc_state \<Rightarrow> error + tempered_smc_state \<times> real) \<Rightarrow>
   (prng_key \<Rightarrow> prng_key \<times> prng_key) \<Rightarrow> pyval list \<Rightarrow> error + pyval list" where
  "step smc_kernel split carry =
     (case unpack5 carry of
        Inl e \<Rightarrow> Inl e
      | Inr (i, lml, s_values, state, key) \<Rightarrow>
          (case (i, lml, state, key) of
             (PInt i', PFloat lml', PState state', PKey key') \<Rightarrow>
               (case smc_kernel (snd (split key')) state' of
                  Inl e \<Rightarrow> Inl e
                | Inr (state'', log_likelihood_increment) \<Rightarrow>
                    Inr [PInt (i' + 1), PFloat (lml' + log_likelihood_increment),
                         PState state'', PKey (fst (split key'))])
           | _ \<Rightarrow> Inl TypeError))"

text \<open>
  \<^verbatim>\<open>n_iter, lml, final_state, key = jax.lax.while_loop(cond, step,
     (0, 0., initial_state, key))\<close>, \<^verbatim>\<open>return key, n_iter, lml, final_state\<close>.
\<close>

definition smc_bkst_inference_loop ::
  "(prng_key \<Rightarrow> prng_key \<times> prng_key) \<Rightarrow> prng_key \<Rightarrow>
   (prng_key \<Rightarrow> tempered_smc_state \<Rightarrow> error + tempered_smc_state \<times> real) \<Rightarrow>
   tempered_smc_state \<Rightarrow> (error + pyval list) option" where
  "smc_bkst_inference_loop split key smc_kernel initial_state =
     (case while_loop cond (step smc_kernel split)
             [PInt 0, PFloat 0, PState initial_state, PKey key] of
        None \<Rightarrow> None
      | Some (Inl e) \<Rightarrow> Some (Inl e)
      | Some (Inr result) \<Rightarrow>
          (case unpack4 result of
             Inl e \<Rightarrow> Some (Inl e)
           | Inr (n_iter, lml, final_state, key') \<Rightarrow>
               Some (Inr [key', n_iter, lml, final_state])))"

text \<open>
  \<^verbatim>\<open>get_LSM_embedding\<close> of the Euclidean module. The module constants \<^verbatim>\<open>mu\<close>,
  \<^verbatim>\<open>sigma\<close> and \<^verbatim>\<open>bookstein_dist\<close> are parameters. The result is the tuple
  \<^verbatim>\<open>(key, n_iter, lml, states_rwm_smc)\<close>.
\<close>

definition get_LSM_embedding ::
  "externals \<Rightarrow> vec \<Rightarrow> real \<Rightarrow> real \<Rightarrow> prng_key \<Rightarrow> mat \<Rightarrow> int \<Rightarrow> int \<Rightarrow> real \<Rightarrow> int \<Rightarrow> int \<Rightarrow>
   (error + pyval list) option" where
  "get_LSM_embedding ext mu sigma bookstein_dist key obs N D rmh_sigma n_mcmc_steps n_particles =
     (case rmh_parameters N D rmh_sigma of
        Inl e \<Rightarrow> Some (Inl e)
      | Inr rmh_params \<Rightarrow>
          (let smc_kernel = smc_step ext rmh_params n_mcmc_steps obs
           in case initialize_bkst_particles ext key n_particles (N, D) mu sigma of
                Inl e \<Rightarrow> Some (Inl e)
              | Inr (key1, init_position) \<Rightarrow>
                  (case smc_bkst_inference_loop (split2 ext) key1 smc_kernel
                          (tempered_init init_position) of
                     None \<Rightarrow> None
                   | Some (Inl e) \<Rightarrow> Some (Inl e)
                   | Some (Inr result) \<Rightarrow>
                       (case unpack4 result of
                          Inl e \<Rightarrow> Some (Inl e)
                        | Inr (key2, n_iter, lml, states_rwm_smc) \<Rightarrow>
                            (case states_rwm_smc of
                               PState states \<Rightarrow>
                                 (case add_bkst_to_smc_trace ext states bookstein_dist D of
                                    Inl e \<Rightarrow> Some (Inl e)
                                  | Inr states' \<Rightarrow>
                                      Some (Inr [key2, n_iter, lml, PState states']))
                             | _ \<Rightarrow> Some (Inl AttributeError))))))"

section \<open>Properties\<close>

subsection \<open>Facts about the float operations\<close>

lemma fadd_NaN_right [simp]: "fadd x NaN = NaN"
  by (cases x) simp_all

lemma fadd_Fin_NInf [simp]: "fadd (Fin x) NInf = NInf"
  by simp



lemma rounding_mono: "rounding rnd \<Longrightarrow> x \<le> y \<Longrightarrow> rnd x \<le> rnd y"
  by (simp add: rounding_def monoD)

lemma rounding_nonneg: "rounding rnd \<Longrightarrow> 0 \<le> x \<Longrightarrow> 0 \<le> rnd x"
  using rounding_mono [of rnd 0 x] by (simp add: rounding_def)

lemma rounding_ge_one: "rounding rnd \<Longrightarrow> 1 \<le> x \<Longrightarrow> 1 \<le> rnd x"
  using rounding_mono [of rnd 1 x] by (simp add: rounding_def)

lemma rounding_le_one: "rounding rnd \<Longrightarrow> x \<le> 1 \<Longrightarrow> rnd x \<le> 1"
  using rounding_mono [of rnd x 1] by (simp add: rounding_def)

lemma rounding_exact: "rounding exact"
  by (simp add: rounding_def exact_def mono_def)

subsection \<open>Distance matrices\<close>

lemma products_commute: "map2 (*) a b = map2 (*) b (a :: real list)"
proof (induction a arbitrary: b)
  case Nil
  show ?case by simp
next
  case (Cons x xs)
  then show ?case by (cases b) (simp_all add: mult.commute)
qed

lemma fdot_commute: "fdot rnd a b = fdot rnd b a"
  by (simp add: fdot_def products_commute [of a b])

lemma ones_mult: "map2 (*) (map (\<lambda>_. 1) xs) (xs :: real list) = xs"
  by (induction xs) simp_all

lemma signed_products_commute:
  "map2 (*) (map2 (*) (signs_row a) a) b = map2 (*) (map2 (*) (signs_row b) b) a"
proof (cases a)
  case Nil
  then show ?thesis by (simp add: signs_row_def)
next
  case ca: (Cons x xs)
  show ?thesis
  proof (cases b)
    case Nil
    then show ?thesis by (simp add: signs_row_def)
  next
    case (Cons y ys)
    show ?thesis unfolding ca Cons
      by (simp add: signs_row_def ones_mult products_commute [of xs ys] mult.commute)
  qed
qed

lemma signed_fdot_commute:
  "fdot rnd (map2 (*) (signs_row a) a) b = fdot rnd (map2 (*) (signs_row b) b) a"
  by (simp add: fdot_def signed_products_commute [of a b])

lemma length_euclidean_distance: "length (euclidean_distance rnd z) = length z"
  by (simp add: euclidean_distance_def diag_def gram_def Let_def)

lemma euclidean_distance_nth:
  assumes "i < length z" "j < length z"
  shows "euclidean_distance rnd z ! i ! j =
         rnd (sqrt (max (rnd (rnd (fdot rnd (z ! j) (z ! j) + fdot rnd (z ! i) (z ! i))
                              - rnd (2 * fdot rnd (z ! i) (z ! j)))) 0))"
  using assms by (simp add: euclidean_distance_def diag_def gram_def Let_def)

lemma mult_ones_sum:
  "sum_list (map2 (*) (map2 (*) xs ys) (map (\<lambda>_. 1) xs)) = sum_list (map2 (*) xs (ys :: real list))"
proof (induction xs arbitrary: ys)
  case Nil
  show ?case by simp
next
  case (Cons x xs)
  then show ?case by (cases ys) simp_all
qed

lemma lorentzian_row_Cons:
  "lorentzian_row (x # xs) (y # ys) = - (x * y) + sum_list (map2 (*) xs ys)"
  by (simp add: lorentzian_row_def signs_row_def mult_ones_sum)

lemma lorentz_distance_nth:
  assumes "i < length z" "j < length z"
  shows "lorentz_distance rnd z ! i ! j =
         (if i = j then 0
          else arccosh rnd (- fdot rnd (map2 (*) (signs_row (z ! i)) (z ! i)) (z ! j)))"
  using assms by (simp add: lorentz_distance_def Let_def)

text \<open>
  The clamp to at least 1 keeps every rounded intermediate result of \<^verbatim>\<open>arccosh\<close> in
  the domain of the next operation, and the result non-negative.
\<close>

lemma arccosh_nonneg:
  assumes "rounding rnd"
  shows "0 \<le> arccosh rnd x"
proof -
  define c where "c = max x 1"
  have c1: "1 \<le> c" by (simp add: c_def)
  then have "1 * 1 \<le> c * c" by (intro mult_mono) simp_all
  then have "1 \<le> c * c" by simp
  then have "1 \<le> rnd (c * c)" by (rule rounding_ge_one [OF assms])
  then have "0 \<le> rnd (c * c) - 1" by simp
  then have "0 \<le> rnd (rnd (c * c) - 1)" by (rule rounding_nonneg [OF assms])
  then have "0 \<le> sqrt (rnd (rnd (c * c) - 1))" by simp
  then have "0 \<le> rnd (sqrt (rnd (rnd (c * c) - 1)))" by (rule rounding_nonneg [OF assms])
  with c1 have "1 \<le> c + rnd (sqrt (rnd (rnd (c * c) - 1)))" by linarith
  then have "1 \<le> rnd (c + rnd (sqrt (rnd (rnd (c * c) - 1))))"
    by (rule rounding_ge_one [OF assms])
  then have "0 \<le> ln (rnd (c + rnd (sqrt (rnd (rnd (c * c) - 1)))))" by simp
  then have "0 \<le> rnd (ln (rnd (c + rnd (sqrt (rnd (rnd (c * c) - 1))))))"
    by (rule rounding_nonneg [OF assms])
  then show ?thesis by (simp add: arccosh_def Let_def c_def)
qed

text \<open>
  C6, as amended. For every rounding, a rectangular array \<open>z\<close> (every row has \<open>D\<close>
  entries) and positions \<open>i, j\<close> below its number of rows: both distance matrices are
  square of that size, symmetric, non-negative and zero on the diagonal. (Nothing is said
  about where else an entry is zero.)
\<close>

theorem distance_matrices:
  assumes "rounding rnd" "rect z D" "i < length z" "j < length z"
  shows "length (euclidean_distance rnd z) = length z \<and>
         length (euclidean_distance rnd z ! i) = length z \<and>
         euclidean_distance rnd z ! i ! j = euclidean_distance rnd z ! j ! i \<and>
         0 \<le> euclidean_distance rnd z ! i ! j \<and>
         euclidean_distance rnd z ! i ! i = 0 \<and>
         length (lorentz_distance rnd z) = length z \<and>
         length (lorentz_distance rnd z ! i) = length z \<and>
         lorentz_distance rnd z ! i ! j = lorentz_distance rnd z ! j ! i \<and>
         0 \<le> lorentz_distance rnd z ! i ! j \<and>
         lorentz_distance rnd z ! i ! i = 0"
proof -
  have r0: "rnd 0 = 0" using assms(1) by (simp add: rounding_def)
  have e1: "length (euclidean_distance rnd z) = length z"
    by (rule length_euclidean_distance)
  have e2: "length (euclidean_distance rnd z ! i) = length z"
    using assms(3) by (simp add: euclidean_distance_def diag_def gram_def Let_def)
  have e3: "euclidean_distance rnd z ! i ! j = euclidean_distance rnd z ! j ! i"
    using assms(3,4)
    by (simp add: euclidean_distance_nth fdot_commute [of rnd "z ! i" "z ! j"] add.commute)
  have e4: "0 \<le> euclidean_distance rnd z ! i ! j"
    using assms(3,4) by (simp add: euclidean_distance_nth rounding_nonneg [OF assms(1)])
  have e5: "euclidean_distance rnd z ! i ! i = 0"
    using assms(3) by (simp add: euclidean_distance_nth r0)
  have l1: "length (lorentz_distance rnd z) = length z"
    by (simp add: lorentz_distance_def Let_def)
  have l2: "length (lorentz_distance rnd z ! i) = length z"
    using assms(3) by (simp add: lorentz_distance_def Let_def)
  have l3: "lorentz_distance rnd z ! i ! j = lorentz_distance rnd z ! j ! i"
    using assms(3,4)
    by (simp add: lorentz_distance_nth signed_fdot_commute [of rnd "z ! i" "z ! j"])
  have l4: "0 \<le> lorentz_distance rnd z ! i ! j"
    using assms(3,4) by (simp add: lorentz_distance_nth arccosh_nonneg [OF assms(1)])
  have l5: "lorentz_distance rnd z ! i ! i = 0"
    using assms(3) by (simp add: lorentz_distance_nth)
  from e1 e2 e3 e4 e5 l1 l2 l3 l4 l5 show ?thesis by (intro conjI)
qed

theorem distance_matrices_witness:
  "rounding exact \<and> rect [[1, 0, 0], [5 / 4, 3 / 4, 0]] 3 \<and>
   euclidean_distance exact [[1, 0, 0], [5 / 4, 3 / 4, 0]] ! 0 ! 1 =
     euclidean_distance exact [[1, 0, 0], [5 / 4, 3 / 4, 0]] ! 1 ! 0 \<and>
   0 \<le> euclidean_distance exact [[1, 0, 0], [5 / 4, 3 / 4, 0]] ! 0 ! 1 \<and>
   euclidean_distance exact [[1, 0, 0], [5 / 4, 3 / 4, 0]] ! 0 ! 0 = 0 \<and>
   lorentz_distance exact [[1, 0, 0], [5 / 4, 3 / 4, 0]] ! 0 ! 1 =
     lorentz_distance exact [[1, 0, 0], [5 / 4, 3 / 4, 0]] ! 1 ! 0 \<and>
   0 \<le> lorentz_distance exact [[1, 0, 0], [5 / 4, 3 / 4, 0]] ! 0 ! 1 \<and>
   lorentz_distance exact [[1, 0, 0], [5 / 4, 3 / 4, 0]] ! 0 ! 0 = 0"
proof -
  define z :: mat where "z = [[1, 0, 0], [5 / 4, 3 / 4, 0]]"
  have r: "rect z 3" by (simp add: z_def rect_def)
  have i: "0 < length z" and j: "1 < length z" by (simp_all add: z_def)
  note t = distance_matrices [OF rounding_exact r i j]
  from t have a: "euclidean_distance exact z ! 0 ! 1 = euclidean_distance exact z ! 1 ! 0"
    by blast
  from t have b: "0 \<le> euclidean_distance exact z ! 0 ! 1" by blast
  from t have c: "euclidean_distance exact z ! 0 ! 0 = 0" by blast
  from t have e: "lorentz_distance exact z ! 0 ! 1 = lorentz_distance exact z ! 1 ! 0"
    by blast
  from t have f: "0 \<le> lorentz_distance exact z ! 0 ! 1" by blast
  from t have g: "lorentz_distance exact z ! 0 ! 0 = 0" by blast
  from rounding_exact r a b c e f g show ?thesis unfolding z_def by (intro conjI)
qed

text \<open>
  The claim as stated (zero exactly on the diagonal) fails: two coinciding points have
  distance 0 away from the diagonal, in both geometries. Every operation at these inputs
  is exact in binary floating point. The second array repeats the point \<open>[1, 0, 0]\<close> of
  the hyperboloid.
\<close>

theorem distance_zero_off_diagonal_counterexample:
  "euclidean_distance exact [[0, 0], [0, 0]] ! 0 ! 1 = 0 \<and>
   on_hyperboloid [1, 0, 0] \<and>
   lorentz_distance exact [[1, 0, 0], [1, 0, 0]] ! 0 ! 1 = 0"
proof -
  have a: "euclidean_distance exact [[0, 0], [0, 0]] ! 0 ! 1 = 0"
    by (simp add: euclidean_distance_nth fdot_def exact_def)
  have b: "on_hyperboloid [1, 0, 0]"
    by (simp add: on_hyperboloid_def lorentzian_row_Cons)
  have c: "lorentz_distance exact [[1, 0, 0], [1, 0, 0]] ! 0 ! 1 = 0"
    by (simp add: lorentz_distance_nth fdot_def exact_def signs_row_def arccosh_def)
  from a b c show ?thesis by (intro conjI)
qed

subsection \<open>The link functions\<close>

lemma jnp_clip_mono: "x \<le> y \<Longrightarrow> jnp_clip x lo hi \<le> jnp_clip y lo hi"
  by (simp add: jnp_clip_def min_def max_def)


lemma exp_neg_sq_antimono:
  fixes a b :: real
  assumes "mono rnd" "0 \<le> a" "a \<le> b"
  shows "rnd (exp (- rnd (b * b))) \<le> rnd (exp (- rnd (a * a)))"
proof -
  have "a * a \<le> b * b" using assms(2,3) by (simp add: mult_mono)
  then have "rnd (a * a) \<le> rnd (b * b)" using assms(1) by (simp add: monoD)
  then have "exp (- rnd (b * b)) \<le> exp (- rnd (a * a))" by simp
  then show ?thesis using assms(1) by (simp add: monoD)
qed

text \<open>With the rounding that changes nothing, the link is the real function of the source line.\<close>

lemma d_to_p_exact:
  "d_to_p exact exact d eps = map (\<lambda>x. jnp_clip (exp (- x\<^sup>2)) eps (1 - eps)) d"
  by (simp add: d_to_p_def exact_def power2_eq_square)

lemma d_to_p_antimono_rounded:
  assumes "mono rnd" "list_all2 (\<lambda>a b. 0 \<le> a \<and> a \<le> b) d1 d2"
  shows "list_all2 (\<lambda>p2 p1. p2 \<le> p1) (d_to_p rnd rnd_py d2 eps) (d_to_p rnd rnd_py d1 eps)"
  using assms(2)
proof (induction d1 d2 rule: list_all2_induct)
  case Nil
  show ?case by (simp add: d_to_p_def)
next
  case (Cons a d1 b d2)
  have "rnd (exp (- rnd (b * b))) \<le> rnd (exp (- rnd (a * a)))"
    using Cons.hyps(1) by (intro exp_neg_sq_antimono [OF assms(1)]) simp_all
  then have "jnp_clip (rnd (exp (- rnd (b * b)))) (rnd eps) (rnd (rnd_py (1 - eps)))
           \<le> jnp_clip (rnd (exp (- rnd (a * a)))) (rnd eps) (rnd (rnd_py (1 - eps)))"
    by (rule jnp_clip_mono)
  with Cons.IH show ?case by (simp add: d_to_p_def)
qed

text \<open>The same over the reals, with no rounding at all.\<close>

lemma d_to_p_antimono_real:
  assumes "list_all2 (\<lambda>a b. 0 \<le> a \<and> a \<le> b) d1 d2"
  shows "list_all2 (\<lambda>p2 p1. p2 \<le> p1)
           (map (\<lambda>x. jnp_clip (exp (- x\<^sup>2)) eps (1 - eps)) d2)
           (map (\<lambda>x. jnp_clip (exp (- x\<^sup>2)) eps (1 - eps)) d1)"
proof -
  have m: "mono exact" by (simp add: mono_def exact_def)
  from d_to_p_antimono_rounded [OF m assms, of exact eps] show ?thesis
    by (simp only: d_to_p_exact)
qed

text \<open>
  C10. The hyperbolic link function is monotonically non-increasing in the distance, for
  every monotone rounding of the float format (in particular in exact arithmetic): for
  vectors of equal length with \<open>0 \<le> d1[k] \<le> d2[k]\<close> at every position,
  \<open>d_to_p(d2)[k] \<le> d_to_p(d1)[k]\<close> at every position, for any \<open>eps\<close>.
\<close>

theorem d_to_p_antimono:
  assumes "mono rnd" "list_all2 (\<lambda>a b. 0 \<le> a \<and> a \<le> b) d1 d2"
  shows "list_all2 (\<lambda>p2 p1. p2 \<le> p1) (d_to_p rnd rnd_py d2 eps) (d_to_p rnd rnd_py d1 eps)"
  using assms by (rule d_to_p_antimono_rounded)

theorem d_to_p_antimono_witness:
  "mono exact \<and> list_all2 (\<lambda>a b. (0::real) \<le> a \<and> a \<le> b) [0, 1] [1, 2] \<and>
   list_all2 (\<lambda>p2 p1. p2 \<le> p1) (d_to_p exact exact [1, 2] (1 / 100000))
     (d_to_p exact exact [0, 1] (1 / 100000))"
proof -
  have m: "mono exact" by (simp add: mono_def exact_def)
  have h: "list_all2 (\<lambda>a b. (0::real) \<le> a \<and> a \<le> b) [0, 1] [1, 2]" by simp
  from m h d_to_p_antimono [OF m h, of exact "1 / 100000"] show ?thesis by (intro conjI)
qed


text \<open>
  The Euclidean link in floating point. The divisor \<open>max(d) + eps\<close> is a positive float
  not below \<open>max(d)\<close>, so the normalised distance and the probability are floats of the
  interval \<open>[0, 1]\<close>.
\<close>

lemma euclidean_divisor:
  assumes "rounding rnd" "0 < rnd eps" "d \<noteq> []" "list_all (\<lambda>x. 0 \<le> x \<and> rnd x = x) d"
  shows "0 < rnd (Max (set d) + rnd eps)" "Max (set d) \<le> rnd (Max (set d) + rnd eps)"
proof -
  have idem: "rnd (rnd eps) = rnd eps" using assms(1) by (simp add: rounding_def)
  have "Max (set d) \<in> set d" using assms(3) by simp
  then have m0: "0 \<le> Max (set d)" and mf: "rnd (Max (set d)) = Max (set d)"
    using assms(4) by (simp_all add: list_all_iff)
  have "rnd (rnd eps) \<le> rnd (Max (set d) + rnd eps)"
    using m0 by (intro rounding_mono [OF assms(1)]) simp
  then show "0 < rnd (Max (set d) + rnd eps)" using assms(2) idem by simp
  have "rnd (Max (set d)) \<le> rnd (Max (set d) + rnd eps)"
    using assms(2) by (intro rounding_mono [OF assms(1)]) simp
  then show "Max (set d) \<le> rnd (Max (set d) + rnd eps)" using mf by simp
qed

lemma euclidean_link_entry:
  fixes x m :: real
  assumes "rounding rnd" "0 < m" "0 \<le> x" "x \<le> m"
  shows "0 \<le> rnd (1 - rnd (x / m))" "rnd (1 - rnd (x / m)) \<le> 1"
proof -
  have q: "0 \<le> x / m" "x / m \<le> 1" using assms(2,3,4) by simp_all
  have "0 \<le> rnd (x / m)" by (rule rounding_nonneg [OF assms(1) q(1)])
  moreover have "rnd (x / m) \<le> 1" by (rule rounding_le_one [OF assms(1) q(2)])
  ultimately have "0 \<le> 1 - rnd (x / m)" "1 - rnd (x / m) \<le> 1" by simp_all
  then show "0 \<le> rnd (1 - rnd (x / m))" "rnd (1 - rnd (x / m)) \<le> 1"
    by (simp_all add: rounding_nonneg [OF assms(1)] rounding_le_one [OF assms(1)])
qed

lemma euclidean_link_value:
  assumes "rounding rnd" "0 < rnd eps" "d \<noteq> []" "list_all (\<lambda>x. 0 \<le> x \<and> rnd x = x) d"
  shows "d_norm_of rnd d eps
         = Inr (map (\<lambda>x. Fin (rnd (x / rnd (Max (set d) + rnd eps)))) d)"
    and "p_of rnd (map (\<lambda>x. Fin (rnd (x / rnd (Max (set d) + rnd eps)))) d)
         = map (\<lambda>x. Fin (rnd (1 - rnd (x / rnd (Max (set d) + rnd eps))))) d"
proof -
  have ne: "rnd (Max (set d) + rnd eps) \<noteq> 0"
    using euclidean_divisor(1) [OF assms] by simp
  show "d_norm_of rnd d eps
        = Inr (map (\<lambda>x. Fin (rnd (x / rnd (Max (set d) + rnd eps)))) d)"
    using assms(3) ne by (simp add: d_norm_of_def round_fl_def)
  show "p_of rnd (map (\<lambda>x. Fin (rnd (x / rnd (Max (set d) + rnd eps)))) d)
        = map (\<lambda>x. Fin (rnd (1 - rnd (x / rnd (Max (set d) + rnd eps))))) d"
    by (simp add: p_of_def fsub_def round_fl_def)
qed

lemma euclidean_link_range:
  assumes "rounding rnd" "0 < rnd eps" "d \<noteq> []" "list_all (\<lambda>x. 0 \<le> x \<and> rnd x = x) d"
  shows "\<exists>d_norm. d_norm_of rnd d eps = Inr d_norm \<and> length (p_of rnd d_norm) = length d \<and>
           list_all (\<lambda>q. \<exists>r. q = Fin r \<and> 0 \<le> r \<and> r \<le> 1) (p_of rnd d_norm)"
proof -
  let ?m = "rnd (Max (set d) + rnd eps)"
  let ?dn = "map (\<lambda>x. Fin (rnd (x / ?m))) d"
  have v1: "d_norm_of rnd d eps = Inr ?dn"
    and v2: "p_of rnd ?dn = map (\<lambda>x. Fin (rnd (1 - rnd (x / ?m)))) d"
    by (rule euclidean_link_value [OF assms])+
  have mp: "0 < ?m" and mm: "Max (set d) \<le> ?m" by (rule euclidean_divisor [OF assms])+
  have rng: "list_all (\<lambda>q. \<exists>r. q = Fin r \<and> 0 \<le> r \<and> r \<le> 1) (p_of rnd ?dn)"
    unfolding v2 list_all_iff
  proof
    fix q
    assume "q \<in> set (map (\<lambda>x. Fin (rnd (1 - rnd (x / ?m)))) d)"
    then obtain x where xd: "x \<in> set d" and q: "q = Fin (rnd (1 - rnd (x / ?m)))" by auto
    have x0: "0 \<le> x" using xd assms(4) by (simp add: list_all_iff)
    have "x \<le> Max (set d)" using xd by simp
    with mm have xm: "x \<le> ?m" by simp
    from euclidean_link_entry [OF assms(1) mp x0 xm] q
    show "\<exists>r. q = Fin r \<and> 0 \<le> r \<and> r \<le> 1" by blast
  qed
  have len: "length (p_of rnd ?dn) = length d" unfolding v2 by simp
  from v1 len rng show ?thesis by blast
qed




text \<open>
  With at least two points, \<^verbatim>\<open>get_det_params\<close> itself returns finite edge probabilities
  in \<open>[0, 1]\<close>, for every rounding and every \<open>eps\<close> whose float is positive.
\<close>

lemma triu_entries:
  assumes "x \<in> set (triu N m)"
  shows "\<exists>i j. i < j \<and> j < N \<and> x = m ! i ! j"
proof -
  from assms obtain i j where "i < N" "Suc i \<le> j" "j < N" "x = m ! i ! j"
    by (auto simp: triu_def)
  then have "i < j \<and> j < N \<and> x = m ! i ! j" by simp
  then show ?thesis by blast
qed

lemma triu_nonempty:
  assumes "2 \<le> N"
  shows "triu N m \<noteq> []"
proof -
  have "0 < N" "1 < N" using assms by simp_all
  then have "m ! 0 ! 1 \<in> set (triu N m)"
    unfolding triu_def set_concat
    by (auto intro!: bexI [of _ "map (\<lambda>j. m ! 0 ! j) [0 + 1..<N]"] bexI [of _ 0])
  then show ?thesis by auto
qed

lemma get_det_params_p_range:
  assumes "rounding rnd" "0 < rnd eps" "2 \<le> length z"
  shows "\<exists>params. get_det_params rnd z eps = Inr params \<and>
           list_all (\<lambda>q. \<exists>r. q = Fin r \<and> 0 \<le> r \<and> r \<le> 1) (params_p params)"
proof -
  let ?d = "triu (length z) (euclidean_distance rnd z)"
  have idem: "rnd (rnd y) = rnd y" for y using assms(1) by (simp add: rounding_def)
  have ne: "?d \<noteq> []" by (rule triu_nonempty [OF assms(3)])
  have fl: "list_all (\<lambda>x. 0 \<le> x \<and> rnd x = x) ?d"
    unfolding list_all_iff
  proof
    fix x
    assume "x \<in> set ?d"
    then obtain i j where "i < j" "j < length z" and x: "x = euclidean_distance rnd z ! i ! j"
      using triu_entries by blast
    then have "i < length z" "j < length z" by simp_all
    then show "0 \<le> x \<and> rnd x = x"
      unfolding x by (simp add: euclidean_distance_nth rounding_nonneg [OF assms(1)] idem)
  qed
  from euclidean_link_range [OF assms(1,2) ne fl]
  show ?thesis by (auto simp: get_det_params_def Let_def)
qed

text \<open>
  The offset does not keep the Euclidean link away from 0 under every rounding. The
  rounding \<open>coarse\<close> keeps numbers below 1 and rounds the others down to integers; under
  it the sum \<open>2 + eps\<close> is the float 2, the normalised distance of the single pair at
  distance 2 is 1, and its probability is 0. In the same way the binary32 sum
  \<open>max(d) + eps\<close> is \<open>max(d)\<close> once \<open>eps\<close> is below half the spacing of the floats at
  \<open>max(d)\<close>.
\<close>

lemma euclidean_link_absorbs_offset:
  "rounding (\<lambda>x. if 1 \<le> x then of_int \<lfloor>x\<rfloor> else x) \<and>
   map_sum id (p_of (\<lambda>x. if 1 \<le> x then of_int \<lfloor>x\<rfloor> else x))
     (d_norm_of (\<lambda>x. if 1 \<le> x then of_int \<lfloor>x\<rfloor> else x) [2] (1 / 1000000)) = Inr [Fin 0]"
proof -
  let ?c = "\<lambda>x :: real. if 1 \<le> x then of_int \<lfloor>x\<rfloor> else x"
  have mono: "mono ?c"
  proof (rule monoI)
    fix x y :: real
    assume xy: "x \<le> y"
    show "?c x \<le> ?c y"
    proof (cases "1 \<le> x")
      case True
      then have "1 \<le> y" using xy by simp
      moreover have "\<lfloor>x\<rfloor> \<le> \<lfloor>y\<rfloor>" using xy by (rule floor_mono)
      ultimately show ?thesis using True by simp
    next
      case False
      show ?thesis
      proof (cases "1 \<le> y")
        case True
        then have "1 \<le> \<lfloor>y\<rfloor>" by simp
        then have "(1::real) \<le> of_int \<lfloor>y\<rfloor>" by linarith
        with False have "x \<le> of_int \<lfloor>y\<rfloor>" by linarith
        then show ?thesis using False True by simp
      next
        case ny: False
        then show ?thesis using False xy by simp
      qed
    qed
  qed
  have idem: "?c (?c x) = ?c x" for x
  proof (cases "1 \<le> x")
    case True
    then have "1 \<le> \<lfloor>x\<rfloor>" by simp
    then have "(1::real) \<le> of_int \<lfloor>x\<rfloor>" by linarith
    then show ?thesis using True by simp
  next
    case False
    then show ?thesis by simp
  qed
  have r: "rounding ?c" unfolding rounding_def using mono idem by simp
  have fl: "\<lfloor>2 + (1::real) / 1000000\<rfloor> = 2" by linarith
  have v: "map_sum id (p_of ?c) (d_norm_of ?c [2] (1 / 1000000)) = Inr [Fin 0]"
    by (simp add: d_norm_of_def p_of_def round_fl_def fsub_def fl)
  from r v show ?thesis by (rule conjI)
qed

subsection \<open>The Bookstein log-priors\<close>



lemma collect_all_right: "collect (map Inr xs) = Inr xs"
  by (induction xs) simp_all





text \<open>
  Outside that support the truncated normal term is minus infinity, and so is the
  hyperbolic log-prior, whatever the latent positions.
\<close>

lemma hyp_bookstein_log_prior_outside_support:
  "hyp_bookstein_log_prior (3 / 10) [[0, 1], [0, 0]] [- 1] 1 = Inr NInf"
  by (simp add: hyp_bookstein_log_prior_def hyp_log_prior_def jax_index_def
      inf_times_bool_def fsub_def fsum_def norm_logpdf_def truncnorm_logpdf_lower_def Let_def)



text \<open>
  The value at the positions \<open>[[0, 1], [0, 0]]\<close> with \<open>mu = [0, 0]\<close> and \<open>sigma = 1\<close>,
  in exact arithmetic: \<open>ln 2 - 2 ln (2 pi) - 1/2\<close>, about \<open>-3.4826\<close>.
\<close>

lemma bookstein_log_prior_example:
  "bookstein_log_prior [[0, 1], [0, 0]] [0, 0] 1 = Inr (Fin (ln 2 - 2 * ln (2 * pi) - 1 / 2))"
proof -
  have n0: "norm_logpdf 0 0 1 = Fin (- (ln (2 * pi) / 2))"
    by (simp add: norm_logpdf_def)
  have n1: "norm_logpdf 1 0 1 = Fin (- ((ln (2 * pi) + 1) / 2))"
    by (simp add: norm_logpdf_def)
  have "bookstein_log_prior [[0, 1], [0, 0]] [0, 0] 1
        = Inr (Fin (- (ln (2 * pi) / 2) + - (ln (2 * pi) / 2)
                    + (ln 2 + (- (ln (2 * pi) / 2) + - ((ln (2 * pi) + 1) / 2)))))"
    by (simp add: bookstein_log_prior_def log_prior_def jax_index_def bcast2_def
        inf_times_bool_def fsum_def n0 n1)
  also have "- (ln (2 * pi) / 2) + - (ln (2 * pi) / 2)
             + (ln 2 + (- (ln (2 * pi) / 2) + - ((ln (2 * pi) + 1) / 2)))
             = ln 2 - 2 * ln (2 * pi) - 1 / 2"
    by (simp add: field_simps)
  finally show ?thesis .
qed

subsection \<open>The exponential map\<close>

lemma jnp_clip_same: "jnp_clip lor eps lor = lor"
  by (simp add: jnp_clip_def)

text \<open>
  C5. The clip in \<^verbatim>\<open>exponential_map\<close> has the value itself as its upper bound, so it
  returns the value unchanged for every \<open>eps\<close>: the divisor is the square root of the
  Lorentzian self-product, not a number of at least \<open>sqrt eps\<close>. For the tangent vector
  \<open>u = [0, 0, 0]\<close> the divisor is 0, and the map at \<open>mu = [1, 0, 0]\<close> divides by it and
  returns NaN in every coordinate.
\<close>

theorem exponential_map_divisor_not_clipped:
  "jnp_clip lor eps lor = lor \<and>
   u_norm u eps = fsqrt (Fin (lorentzian_row u u)) \<and>
   u_norm [0, 0, 0] (1 / 1000000) = Fin 0 \<and>
   exponential_map [[1, 0, 0]] [[0, 0, 0]] (1 / 1000000) = [[NaN, NaN, NaN]]"
proof -
  have z: "jnp_clip lor eps lor = lor" by (rule jnp_clip_same)
  have a: "u_norm v e = fsqrt (Fin (lorentzian_row v v))" for v e
    by (simp add: u_norm_def Let_def jnp_clip_same)
  have b: "u_norm [0, 0, 0] (1 / 1000000) = Fin 0"
    by (simp add: a lorentzian_row_Cons)
  have c: "exponential_map [[1, 0, 0]] [[0, 0, 0]] (1 / 1000000) = [[NaN, NaN, NaN]]"
    by (simp add: exponential_map_def exponential_map_row_def b)
  from z a [of u eps] b c show ?thesis by (intro conjI)
qed

subsection \<open>The log-likelihoods\<close>

lemma get_all_params_unbound: "map_of module_globals ''get_all_params'' = None"
  by (simp add: module_globals_def)

text \<open>
  C3. The log-likelihood of the Euclidean module raises NameError for every latent state
  and observation matrix: it calls \<^verbatim>\<open>get_all_params\<close>, a name the module does not bind.
\<close>

theorem log_likelihood_raises_NameError: "log_likelihood rnd z obs eps = Inl NameError"
  by (simp add: log_likelihood_def get_all_params_unbound)

text \<open>
  The hyperbolic module's \<^verbatim>\<open>log_likelihood_from_dist\<close> does what the Euclidean function
  was meant to do: for observation rows as long as \<open>d\<close> it is the sum, over all rows and
  all edges, of the Bernoulli log-mass of the observation under the link of the distance.
\<close>

lemma log_likelihood_from_dist_sum:
  assumes "list_all (\<lambda>row. length row = length d) obs"
  shows "log_likelihood_from_dist rnd rnd_py d obs eps =
         Inr (fsum (concat (map (\<lambda>row. map2 bernoulli_logpmf row
                                      (map Fin (d_to_p rnd rnd_py d eps))) obs)))"
proof -
  have "map (\<lambda>row. bcast2 bernoulli_logpmf row (map Fin (d_to_p rnd rnd_py d eps))) obs
        = map Inr (map (\<lambda>row. map2 bernoulli_logpmf row
                                (map Fin (d_to_p rnd rnd_py d eps))) obs)"
    using assms by (simp add: bcast2_def list_all_iff d_to_p_def)
  then show ?thesis
    by (simp only: log_likelihood_from_dist_def Let_def collect_all_right sum.case)
qed

subsection \<open>The inference loop\<close>

lemma step_of_four: "step smc_kernel split [a, b, c, d] = Inl ValueError"
  by (simp add: step_def unpack5_def)

lemma lmbda_tempered_init [simp]: "lmbda (tempered_init pos) = 0"
  by (simp add: tempered_init_def Let_def)

text \<open>
  The carry of the loop has four components and the step unpacks five: the first call of
  the step raises, before the SMC kernel is reached.
\<close>

lemma loop_raises:
  assumes "lmbda s < 1"
  shows "smc_bkst_inference_loop split key smc_kernel s = Some (Inl ValueError)"
  unfolding smc_bkst_inference_loop_def
  by (subst while_loop.simps) (simp add: cond_def assms step_of_four)

text \<open>
  Under the documented loop semantics the loop returns without a step only from a state
  whose tempering parameter is already at least 1.
\<close>

lemma loop_skipped:
  assumes "\<not> lmbda s < 1"
  shows "smc_bkst_inference_loop split key smc_kernel s
         = Some (Inr [PKey key, PInt 0, PFloat 0, PState s])"
  unfolding smc_bkst_inference_loop_def
  by (subst while_loop.simps) (simp add: cond_def assms unpack4_def)

text \<open>
  C7. From the initial state of a run (tempering parameter 0, as the sampling library's
  \<^verbatim>\<open>init\<close> sets it) the continuation condition \<open>lmbda < 1\<close> holds, and the loop ends
  there with a ValueError, for every kernel, key and particle set: it does not end
  when the tempering parameter reaches 1, and no step is completed.
\<close>

theorem inference_loop_stops_at_lambda_zero:
  "lmbda (tempered_init pos) = 0 \<and>
   cond [PInt 0, PFloat 0, PState (tempered_init pos), PKey key] = Inr True \<and>
   step smc_kernel split [PInt 0, PFloat 0, PState (tempered_init pos), PKey key]
     = Inl ValueError \<and>
   smc_bkst_inference_loop split key smc_kernel (tempered_init pos) = Some (Inl ValueError)"
proof -
  have a: "cond [PInt 0, PFloat 0, PState (tempered_init pos), PKey key] = Inr True"
    by (simp add: cond_def)
  have b: "smc_bkst_inference_loop split key smc_kernel (tempered_init pos)
           = Some (Inl ValueError)"
    by (rule loop_raises) simp
  from lmbda_tempered_init [of pos] a step_of_four b show ?thesis by (intro conjI)
qed

subsection \<open>The drivers\<close>

lemma random_array_ok:
  assumes "\<not> list_ex (\<lambda>n. n < 0) shp"
  shows "random_array draws shp = Inr \<lparr>arr_shape = shp, arr_data = draws (nat (prod_list shp))\<rparr>"
  using assms by (simp add: random_array_def)

lemma add_last_axis_same_length:
  assumes "arr_shape a \<noteq> []" "int (length v) = last (arr_shape a)"
  shows "\<exists>b. add_last_axis a v = Inr b \<and> arr_shape b = arr_shape a"
  using assms by (simp add: add_last_axis_def Let_def)

text \<open>
  The Euclidean driver never returns a result: whatever the library functions do, it ends
  with an exception.
\<close>

lemma get_LSM_embedding_raises:
  "\<exists>e. get_LSM_embedding ext mu sigma bookstein_dist key obs N D rmh_sigma n_mcmc_steps
          n_particles = Some (Inl e)"
proof (cases "rmh_parameters N D rmh_sigma")
  case (Inl e)
  then show ?thesis by (simp add: get_LSM_embedding_def)
next
  case r: (Inr rmh_params)
  show ?thesis
  proof (cases "initialize_bkst_particles ext key n_particles (N, D) mu sigma")
    case (Inl e)
    then show ?thesis by (simp add: get_LSM_embedding_def r)
  next
    case (Inr kp)
    obtain key1 init_position where kp: "kp = (key1, init_position)" by (cases kp)
    have "smc_bkst_inference_loop (split2 ext) key1
            (smc_step ext rmh_params n_mcmc_steps obs) (tempered_init init_position)
          = Some (Inl ValueError)"
      by (rule loop_raises) simp
    then show ?thesis by (simp add: get_LSM_embedding_def r Inr kp Let_def)
  qed
qed

lemma euclidean_initial_position:
  assumes "0 \<le> n_particles" "0 \<le> D" "D \<le> N" "int (length mu) = D"
  shows "\<exists>key' a. initialize_bkst_particles ext key n_particles (N, D) mu sigma
                     = Inr (key', [(''z'', a)]) \<and> arr_shape a = [n_particles, N - D, D]"
proof -
  let ?shp = "[n_particles, N - D, D]"
  have ok: "\<not> list_ex (\<lambda>n. n < 0) ?shp" using assms by simp
  let ?a = "\<lparr>arr_shape = ?shp,
             arr_data = normal_draws ext (fst (split2 ext key)) (nat (prod_list ?shp))\<rparr>"
  have ra: "random_array (normal_draws ext (fst (split2 ext key))) ?shp = Inr ?a"
    by (rule random_array_ok [OF ok])
  have "\<exists>b. add_last_axis (scale_array sigma ?a) mu = Inr b
            \<and> arr_shape b = arr_shape (scale_array sigma ?a)"
    by (rule add_last_axis_same_length) (simp_all add: scale_array_def assms)
  then obtain b where b: "add_last_axis (scale_array sigma ?a) mu = Inr b"
    and sb: "arr_shape b = ?shp" by (auto simp: scale_array_def)
  have "initialize_bkst_particles ext key n_particles (N, D) mu sigma
        = Inr (snd (split2 ext key), [(''z'', smc_bookstein_position ext b)])"
    by (simp only: initialize_bkst_particles_def Let_def fst_conv snd_conv ra b sum.case)
  moreover have "arr_shape (smc_bookstein_position ext b) = ?shp"
    by (simp add: smc_bookstein_position_def sb)
  ultimately show ?thesis by blast
qed

text \<open>
  C2. The Euclidean driver returns no iteration count, log marginal likelihood or particle
  state: for every input it ends with an exception, and with the module's default
  arguments (\<open>mu = [0, 0]\<close>, \<open>sigma = 1\<close>, \<open>bookstein_dist = 0.3\<close>, \<open>N = 164\<close>,
  \<open>D = 2\<close>, \<open>rmh_sigma = 0.01\<close>, 100 MCMC steps, 1000 particles) the exception is the
  ValueError of the first step of the loop.
\<close>

theorem get_LSM_embedding_never_returns:
  "(\<exists>e. get_LSM_embedding ext mu sigma bookstein_dist key obs N D rmh_sigma n_mcmc_steps
           n_particles = Some (Inl e)) \<and>
   get_LSM_embedding ext [0, 0] 1 (3 / 10) key obs 164 2 (1 / 100) 100 1000
     = Some (Inl ValueError)"
proof -
  have a: "\<exists>e. get_LSM_embedding ext mu sigma bookstein_dist key obs N D rmh_sigma
                 n_mcmc_steps n_particles = Some (Inl e)"
    by (rule get_LSM_embedding_raises)
  obtain rp where rp: "rmh_parameters 164 2 (1 / 100) = Inr rp"
    by (simp add: rmh_parameters_def jnp_eye_def)
  obtain key' a where ip: "initialize_bkst_particles ext key 1000 (164, 2) [0, 0] 1
                             = Inr (key', [(''z'', a)])"
    using euclidean_initial_position [of 1000 2 164 "[0, 0]" ext key 1] by auto
  have lp: "smc_bkst_inference_loop (split2 ext) key' (smc_step ext rp 100 obs)
              (tempered_init [(''z'', a)]) = Some (Inl ValueError)"
    by (rule loop_raises) simp
  have b: "get_LSM_embedding ext [0, 0] 1 (3 / 10) key obs 164 2 (1 / 100) 100 1000
           = Some (Inl ValueError)"
    by (simp add: get_LSM_embedding_def rp ip lp Let_def)
  from a b show ?thesis by (intro conjI)
qed

text \<open>
  The dimension of the proposal covariance against the number of scalar variables of a
  particle, in general: the Euclidean driver builds a matrix one larger than the
  particle; in the hyperbolic driver the two agree.
\<close>

lemma rmh_parameters_size:
  assumes "0 \<le> D" "D \<le> N"
  shows "map_sum id (\<lambda>m. int (length m)) (rmh_parameters N D rmh_sigma) = Inr ((N - D) * D + 1)"
    and "map_sum id (\<lambda>m. int (length m)) (hyp_rmh_parameters N D rmh_sigma)
         = Inr ((N - D) * D + 1)"
proof -
  have "0 \<le> (N - D) * D" using assms by simp
  then show "map_sum id (\<lambda>m. int (length m)) (rmh_parameters N D rmh_sigma)
             = Inr ((N - D) * D + 1)"
    and "map_sum id (\<lambda>m. int (length m)) (hyp_rmh_parameters N D rmh_sigma)
         = Inr ((N - D) * D + 1)"
    by (simp_all add: rmh_parameters_def hyp_rmh_parameters_def jnp_eye_def scale_matrix_def
        Let_def)
qed

lemma euclidean_ravel_size:
  assumes "0 \<le> n_particles" "0 \<le> D" "D \<le> N" "int (length mu) = D"
  shows "map_sum id (\<lambda>r. ravel_size (snd r))
           (initialize_bkst_particles ext key n_particles (N, D) mu sigma) = Inr ((N - D) * D)"
proof -
  from euclidean_initial_position [OF assms, of ext key sigma]
  obtain key' a where "initialize_bkst_particles ext key n_particles (N, D) mu sigma
                         = Inr (key', [(''z'', a)])" "arr_shape a = [n_particles, N - D, D]"
    by blast
  then show ?thesis by (simp add: ravel_size_def)
qed

lemma hyperbolic_ravel_size:
  assumes "0 \<le> n_particles" "0 \<le> D" "D \<le> N"
  shows "map_sum id (\<lambda>r. ravel_size (snd r))
           (hyp_initialize_bkst_particles ext key n_particles (N, D) sigma bookstein_dist)
         = Inr ((N - D) * D + 1)"
  using assms
  by (simp add: hyp_initialize_bkst_particles_def Let_def random_array_def ravel_size_def
      smc_bookstein_position_def scale_array_def)

text \<open>
  C8. With the default sizes \<open>N = 164\<close>, \<open>D = 2\<close> and 1000 particles: the Euclidean
  particle set has the single entry \<open>z\<close> of shape \<open>(1000, 162, 2)\<close>, that is 324 scalar
  variables per particle, and the Euclidean driver builds a proposal covariance of
  dimension 325; the hyperbolic particle set has the entries \<open>_z\<close> of shape
  \<open>(1000, 162, 2)\<close> and \<open>_zb_x\<close> of shape \<open>(1000, 1)\<close>, that is 325 scalar variables,
  and its covariance has dimension 325.
\<close>

theorem proposal_dimension_at_defaults:
  "map_sum id (\<lambda>r. (map fst (snd r), map (\<lambda>e. arr_shape (snd e)) (snd r), ravel_size (snd r)))
     (initialize_bkst_particles ext key 1000 (164, 2) [0, 0] 1)
     = Inr ([''z''], [[1000, 162, 2]], 324) \<and>
   map_sum id length (rmh_parameters 164 2 rmh_sigma) = Inr 325 \<and>
   map_sum id (\<lambda>r. (map fst (snd r), map (\<lambda>e. arr_shape (snd e)) (snd r), ravel_size (snd r)))
     (hyp_initialize_bkst_particles ext key 1000 (164, 2) 1 (3 / 10))
     = Inr ([''_z'', ''_zb_x''], [[1000, 162, 2], [1000, 1]], 325) \<and>
   map_sum id length (hyp_rmh_parameters 164 2 rmh_sigma) = Inr 325"
proof -
  obtain key' a where ip: "initialize_bkst_particles ext key 1000 (164, 2) [0, 0] 1
                             = Inr (key', [(''z'', a)])"
    and sa: "arr_shape a = [1000, 164 - 2, 2]"
    using euclidean_initial_position [of 1000 2 164 "[0, 0]" ext key 1] by auto
  have a: "map_sum id (\<lambda>r. (map fst (snd r), map (\<lambda>e. arr_shape (snd e)) (snd r),
                             ravel_size (snd r)))
             (initialize_bkst_particles ext key 1000 (164, 2) [0, 0] 1)
           = Inr ([''z''], [[1000, 162, 2]], 324)"
    by (simp add: ip sa ravel_size_def)
  have b: "map_sum id length (rmh_parameters 164 2 rmh_sigma) = Inr 325"
    by (simp add: rmh_parameters_def jnp_eye_def scale_matrix_def)
  have c: "map_sum id (\<lambda>r. (map fst (snd r), map (\<lambda>e. arr_shape (snd e)) (snd r),
                             ravel_size (snd r)))
             (hyp_initialize_bkst_particles ext key 1000 (164, 2) 1 (3 / 10))
           = Inr ([''_z'', ''_zb_x''], [[1000, 162, 2], [1000, 1]], 325)"
    by (simp add: hyp_initialize_bkst_particles_def Let_def random_array_def ravel_size_def
        smc_bookstein_position_def scale_array_def)
  have d: "map_sum id length (hyp_rmh_parameters 164 2 rmh_sigma) = Inr 325"
    by (simp add: hyp_rmh_parameters_def jnp_eye_def scale_matrix_def Let_def)
  from a b c d show ?thesis by (intro conjI)
qed

end
